theory Spec2Isabelle
  imports Main "HOL-Library.Char_ord" "HOL-Library.List_Lexorder"
    "HOL-Library.Product_Lexorder" "HOL-Library.Multiset" "HOL-Library.Sublist"
begin

section \<open>Data model\<close>

text \<open>
  A pandas DataFrame of playback events is a list of rows over the four columns the
  extractors build: \<open>song_name\<close>, \<open>artist_name\<close>, \<open>played_at\<close> and \<open>timestamp\<close>
  (the calendar date, called \<open>date\<close> in the specification). A cell of a validated frame
  is a Python \<open>str\<close> or a null (\<open>None\<close>); a \<open>char\<close> stands for one character of the
  \<open>str\<close>, and the order on strings is the lexicographic order on characters that
  Python's \<open><\<close> on \<open>str\<close> and pandas' sort of an object column use. No definition
  depends on which characters there are. The record of a row is polymorphic in its cells:
  the frame that an extractor builds holds the JSON values of the response, whatever they
  are.
\<close>

type_synonym cell = "string option"

record 'c row =
  song_name :: 'c
  artist_name :: 'c
  played_at :: 'c
  timestamp :: 'c

type_synonym frame = "cell row list"

text \<open>
  Exceptions are values. The payload of an exception is its message (shortened, in
  English) or, for \<open>RuntimeError\<close>, the exception it was built from.
\<close>

datatype error =
    Exception string
  | ValueError string
  | KeyError string
  | IndexError
  | TypeError
  | AttributeError
  | RequestException string
  | ConnectionError error
  | RuntimeError error
  | IntegrityError
  | OperationalError string
  | ProgrammingError string

section \<open>QualityGate\<close>

text \<open>\<open>load_df.isnull().values.any()\<close>: some cell of some row is null.\<close>

definition row_isnull :: "cell row \<Rightarrow> bool" where
  "row_isnull r =
     (song_name r = None \<or> artist_name r = None \<or> played_at r = None \<or> timestamp r = None)"

definition isnull_any :: "frame \<Rightarrow> bool" where
  "isnull_any df = list_ex row_isnull df"

text \<open>
  \<open>pd.Series(load_df['played_at']).is_unique\<close>: no value of the column occurs twice
  (two nulls count as the same value).
\<close>

definition is_unique :: "cell list \<Rightarrow> bool" where
  "is_unique col = distinct col"

text \<open>
  \<open>Data_Quality\<close> of \<open>data_processing.py\<close>: \<open>False\<close> on an empty frame, an
  \<open>Exception\<close> on a repeated \<open>played_at\<close>, then an \<open>Exception\<close> on a null, else \<open>True\<close>.
\<close>

definition Data_Quality :: "frame \<Rightarrow> error + bool" where
  "Data_Quality load_df =
     (if load_df = [] then Inr False
      else if \<not> is_unique (map played_at load_df)
        then Inl (Exception ''Primary Key Exception, Data Might Contain duplicates'')
      else if isnull_any load_df then Inl (Exception ''Null values found'')
      else Inr True)"

text \<open>
  \<open>data_quality\<close> of \<open>Dags/spotify_etl.py\<close>: the same checks in the same order,
  raising \<open>ValueError\<close>.
\<close>

definition data_quality :: "frame \<Rightarrow> error + bool" where
  "data_quality df =
     (if df = [] then Inr False
      else if \<not> is_unique (map played_at df)
        then Inl (ValueError ''duplicates in column played_at'')
      else if isnull_any df then Inl (ValueError ''NULL values found'')
      else Inr True)"

text \<open>
  The specification's reading of an invalid field, "null or empty": the cell is null or
  the empty string. Used only to state the specification's sentence.
\<close>

definition spec_null_or_empty :: "cell \<Rightarrow> bool" where
  "spec_null_or_empty c = (c = None \<or> c = Some [])"

definition spec_row_null_or_empty :: "cell row \<Rightarrow> bool" where
  "spec_row_null_or_empty r =
     (spec_null_or_empty (song_name r) \<or> spec_null_or_empty (artist_name r) \<or>
      spec_null_or_empty (played_at r) \<or> spec_null_or_empty (timestamp r))"

section \<open>Aggregator\<close>

text \<open>
  A row of the aggregate, with the columns \<open>ID\<close>, \<open>timestamp\<close>, \<open>artist_name\<close> and
  \<open>count\<close> that both aggregators select; the names carry a prefix to tell them from the
  columns of the events. The key columns of a group hold strings, since a row with a
  null in its key is in no group.
\<close>

record agg =
  agg_ID :: string
  agg_timestamp :: string
  agg_artist_name :: string
  agg_count :: nat

text \<open>
  \<open>groupby(['timestamp', 'artist_name'], as_index=False)\<close> with pandas' defaults
  \<open>sort=True\<close> and \<open>dropna=True\<close>: a row whose key has a null belongs to no group; the
  groups come in ascending order of the key pair.
\<close>

definition row_key :: "cell row \<Rightarrow> (string \<times> string) option" where
  "row_key r =
     (case timestamp r of None \<Rightarrow> None
      | Some t \<Rightarrow> (case artist_name r of None \<Rightarrow> None | Some a \<Rightarrow> Some (t, a)))"

definition group_keys :: "frame \<Rightarrow> (string \<times> string) list" where
  "group_keys df = sort (remdups (List.map_filter row_key df))"

definition group_rows :: "frame \<Rightarrow> string \<times> string \<Rightarrow> frame" where
  "group_rows df k = filter (\<lambda>r. row_key r = Some k) df"

text \<open>
  \<open>Transform_df\<close> of \<open>data_processing.py\<close>: \<open>.count()\<close> counts, per group, the
  non-null cells of each remaining column; the count of \<open>played_at\<close> is renamed
  \<open>count\<close>. \<open>ID\<close> is \<open>timestamp.astype(str) + "-" + artist_name\<close>.
\<close>

definition Transform_df :: "frame \<Rightarrow> agg list" where
  "Transform_df load_df =
     map (\<lambda>(t, a).
        \<lparr>agg_ID = t @ ''-'' @ a, agg_timestamp = t, agg_artist_name = a,
         agg_count = length (filter (\<lambda>r. played_at r \<noteq> None) (group_rows load_df (t, a)))\<rparr>)
       (group_keys load_df)"

text \<open>
  \<open>transform_df\<close> of \<open>Dags/spotify_etl.py\<close>: \<open>.size()\<close> is the number of rows of
  each group, renamed \<open>count\<close>; \<open>ID\<close> is \<open>timestamp + '-' + artist_name\<close>.
\<close>

definition transform_df :: "frame \<Rightarrow> agg list" where
  "transform_df df =
     map (\<lambda>(t, a).
        \<lparr>agg_ID = t @ ''-'' @ a, agg_timestamp = t, agg_artist_name = a,
         agg_count = length (group_rows df (t, a))\<rparr>)
       (group_keys df)"

text \<open>The key of an aggregate record, and the rows of a frame that share it.\<close>

definition agg_key :: "agg \<Rightarrow> string \<times> string" where
  "agg_key x = (agg_timestamp x, agg_artist_name x)"

definition shares_key :: "agg \<Rightarrow> cell row \<Rightarrow> bool" where
  "shares_key x r =
     (timestamp r = Some (agg_timestamp x) \<and> artist_name r = Some (agg_artist_name x))"

text \<open>
  The extractors derive the date of an event as \<open>played_at[:10]\<close>. For an ISO-8601
  timestamp, which has more than ten characters, this is a string of exactly ten
  characters.
\<close>

definition date_is_prefix :: "cell row \<Rightarrow> bool" where
  "date_is_prefix r =
     (case played_at r of None \<Rightarrow> False
      | Some p \<Rightarrow> 10 \<le> length p \<and> timestamp r = Some (take 10 p))"

definition dates_of_length :: "nat \<Rightarrow> frame \<Rightarrow> bool" where
  "dates_of_length n df =
     list_all (\<lambda>r. case timestamp r of None \<Rightarrow> True | Some t \<Rightarrow> length t = n) df"

section \<open>Example batches\<close>

definition event :: "string \<Rightarrow> string \<Rightarrow> string \<Rightarrow> string \<Rightarrow> cell row" where
  "event s a p t =
     \<lparr>song_name = Some s, artist_name = Some a, played_at = Some p, timestamp = Some t\<rparr>"

text \<open>The worked example of the specification: two plays of A and one of B on one day.\<close>

definition worked_example :: frame where
  "worked_example =
     [event ''s1'' ''A'' ''2024-01-01T10:00:00Z'' ''2024-01-01'',
      event ''s2'' ''B'' ''2024-01-01T11:00:00Z'' ''2024-01-01'',
      event ''s3'' ''A'' ''2024-01-01T12:00:00Z'' ''2024-01-01'']"

text \<open>One event whose song name is the empty string.\<close>

definition unnamed_song :: frame where
  "unnamed_song = [event [] ''A'' ''2024-01-01T10:00:00Z'' ''2024-01-01'']"

section \<open>Extractor\<close>

text \<open>
  The parsed body of the API response (\<open>response.json()\<close>) is a JSON value. \<open>JObj kvs\<close>
  is the Python \<open>dict\<close> with the items \<open>kvs\<close>, in order, each key once. The payload of
  a number is never inspected.
\<close>

datatype json =
    JNull
  | JBool bool
  | JNum int
  | JStr string
  | JArr "json list"
  | JObj "(string \<times> json) list"

text \<open>
  \<open>v[k]\<close> for a string key \<open>k\<close>: a lookup in a \<open>dict\<close> (\<open>KeyError\<close> when the key is
  absent), a \<open>TypeError\<close> on every other value.
\<close>

fun getitem :: "json \<Rightarrow> string \<Rightarrow> error + json" where
  "getitem (JObj kvs) k = (case map_of kvs k of None \<Rightarrow> Inl (KeyError k) | Some v \<Rightarrow> Inr v)"
| "getitem v k = Inl TypeError"

text \<open>\<open>v[k1][k2]...\<close>, evaluated from the left; the first exception ends it.\<close>

fun getpath :: "json \<Rightarrow> string list \<Rightarrow> error + json" where
  "getpath v [] = Inr v"
| "getpath v (k # ks) = (case getitem v k of Inl e \<Rightarrow> Inl e | Inr w \<Rightarrow> getpath w ks)"

text \<open>
  \<open>v[0]\<close>: the first element of a list or the first character of a string
  (\<open>IndexError\<close> when empty); on a \<open>dict\<close> the key \<open>0\<close> is absent, since every key of a
  parsed JSON object is a string; a \<open>TypeError\<close> on null, booleans and numbers.
\<close>

fun getitem0 :: "json \<Rightarrow> error + json" where
  "getitem0 (JArr []) = Inl IndexError"
| "getitem0 (JArr (x # xs)) = Inr x"
| "getitem0 (JStr []) = Inl IndexError"
| "getitem0 (JStr (c # cs)) = Inr (JStr [c])"
| "getitem0 (JObj kvs) = Inl (KeyError ''0'')"
| "getitem0 v = Inl TypeError"

text \<open>
  \<open>v[:10]\<close>: the first ten characters of a string or elements of a list; a
  \<open>TypeError\<close> on every other value (for a \<open>dict\<close>: the slice is unhashable, in
  Python before 3.12).
\<close>

fun slice10 :: "json \<Rightarrow> error + json" where
  "slice10 (JStr s) = Inr (JStr (take 10 s))"
| "slice10 (JArr xs) = Inr (JArr (take 10 xs))"
| "slice10 v = Inl TypeError"

text \<open>\<open>for item in v\<close>: the elements of a list, the keys of a \<open>dict\<close>, the characters of a string.\<close>

fun py_iter :: "json \<Rightarrow> error + json list" where
  "py_iter (JArr xs) = Inr xs"
| "py_iter (JObj kvs) = Inr (map (\<lambda>kv. JStr (fst kv)) kvs)"
| "py_iter (JStr s) = Inr (map (\<lambda>c. JStr [c]) s)"
| "py_iter v = Inl TypeError"

text \<open>\<open>data.get(k, d)\<close>: only a \<open>dict\<close> has the method.\<close>

fun dict_get :: "json \<Rightarrow> string \<Rightarrow> json \<Rightarrow> error + json" where
  "dict_get (JObj kvs) k d = Inr (case map_of kvs k of None \<Rightarrow> d | Some v \<Rightarrow> v)"
| "dict_get v k d = Inl AttributeError"

text \<open>\<open>k not in data\<close>: no such key of a \<open>dict\<close>, element of a list, or substring of a string.\<close>

fun not_in :: "string \<Rightarrow> json \<Rightarrow> error + bool" where
  "not_in k (JObj kvs) = Inr (map_of kvs k = None)"
| "not_in k (JArr xs) = Inr (\<not> List.member xs (JStr k))"
| "not_in k (JStr s) = Inr (\<not> sublist k s)"
| "not_in k v = Inl TypeError"

text \<open>The four lists that the loop over the items fills.\<close>

record columns =
  song_names :: "json list"
  artist_names :: "json list"
  played_at_list :: "json list"
  timestamps :: "json list"

definition no_columns :: columns where
  "no_columns = \<lparr>song_names = [], artist_names = [], played_at_list = [], timestamps = []\<rparr>"

text \<open>
  The statements of the loop body, in the order of the source (the same in both
  extractors):
  \<^verbatim>\<open>
  song_names.append(item["track"]["name"])
  artist_names.append(item["track"]["album"]["artists"][0]["name"])
  played_at = item["played_at"]
  played_at_list.append(played_at)
  timestamps.append(played_at[:10])
  \<close>
  The result is the lists after the statements that ran, and the exception that stopped
  the body, if one did. An argument is evaluated before its \<open>append\<close> runs, so a
  statement that raises appends nothing, and the appends before it stay.
\<close>

definition artist_of :: "json \<Rightarrow> error + json" where
  "artist_of item =
     (case getpath item [''track'', ''album'', ''artists''] of
        Inl e \<Rightarrow> Inl e
      | Inr artists \<Rightarrow>
          (case getitem0 artists of Inl e \<Rightarrow> Inl e | Inr first \<Rightarrow> getitem first ''name''))"

definition item_body :: "columns \<Rightarrow> json \<Rightarrow> columns \<times> error option" where
  "item_body c item =
     (case getpath item [''track'', ''name''] of
        Inl e \<Rightarrow> (c, Some e)
      | Inr name \<Rightarrow>
          (let c1 = c\<lparr>song_names := song_names c @ [name]\<rparr> in
           case artist_of item of
             Inl e \<Rightarrow> (c1, Some e)
           | Inr artist \<Rightarrow>
               (let c2 = c1\<lparr>artist_names := artist_names c1 @ [artist]\<rparr> in
                case getitem item ''played_at'' of
                  Inl e \<Rightarrow> (c2, Some e)
                | Inr played \<Rightarrow>
                    (let c3 = c2\<lparr>played_at_list := played_at_list c2 @ [played]\<rparr> in
                     case slice10 played of
                       Inl e \<Rightarrow> (c3, Some e)
                     | Inr date \<Rightarrow> (c3\<lparr>timestamps := timestamps c3 @ [date]\<rparr>, None)))))"

text \<open>
  \<open>pd.DataFrame({...})\<close> of the four lists: a \<open>ValueError\<close> unless they have the same
  length, else one row per index.
\<close>

definition DataFrame :: "columns \<Rightarrow> error + json row list" where
  "DataFrame c =
     (if length (artist_names c) = length (song_names c) \<and>
         length (played_at_list c) = length (song_names c) \<and>
         length (timestamps c) = length (song_names c)
      then Inr (map (\<lambda>i. \<lparr>song_name = song_names c ! i, artist_name = artist_names c ! i,
                          played_at = played_at_list c ! i, timestamp = timestamps c ! i\<rparr>)
                  [0..<length (song_names c)])
      else Inl (ValueError ''All arrays must be of the same length''))"

text \<open>
  The loop of \<open>return_dataframe\<close> (\<open>Dags/spotify_etl.py\<close>): the body runs in a \<open>try\<close>
  whose handler catches \<open>KeyError\<close> only, logs a warning that names the key, and goes on
  with the next item; the lists keep what the body appended before it raised. Any other
  exception leaves the function. The result is the warnings logged and the lists or the
  exception.
\<close>

fun return_dataframe_loop ::
  "columns \<Rightarrow> string list \<Rightarrow> json list \<Rightarrow> string list \<times> (error + columns)" where
  "return_dataframe_loop c warnings [] = (warnings, Inr c)"
| "return_dataframe_loop c warnings (item # items) =
     (case item_body c item of
        (c', None) \<Rightarrow> return_dataframe_loop c' warnings items
      | (c', Some (KeyError k)) \<Rightarrow> return_dataframe_loop c' (warnings @ [k]) items
      | (c', Some e) \<Rightarrow> (warnings, Inl e))"

text \<open>
  \<open>return_dataframe\<close>. Its argument is the outcome of the request
  (\<open>requests.get\<close>, \<open>raise_for_status\<close>, \<open>response.json()\<close>): the exception raised, which
  is logged and raised again, or the parsed body. The items are
  \<open>data.get("items", [])\<close>.
\<close>

definition return_dataframe :: "error + json \<Rightarrow> string list \<times> (error + json row list)" where
  "return_dataframe response =
     (case response of
        Inl e \<Rightarrow> ([], Inl e)
      | Inr data \<Rightarrow>
          (case dict_get data ''items'' (JArr []) of
             Inl e \<Rightarrow> ([], Inl e)
           | Inr v \<Rightarrow>
               (case py_iter v of
                  Inl e \<Rightarrow> ([], Inl e)
                | Inr items \<Rightarrow>
                    (case return_dataframe_loop no_columns [] items of
                       (warnings, Inl e) \<Rightarrow> (warnings, Inl e)
                     | (warnings, Inr c) \<Rightarrow> (warnings, DataFrame c)))))"

text \<open>
  The loop of \<open>get_recently_played_tracks\<close> (\<open>spotify_data_extractor.py\<close>): the same
  body with no handler of its own, so the first exception ends the loop.
\<close>

fun tracks_loop :: "columns \<Rightarrow> json list \<Rightarrow> error + columns" where
  "tracks_loop c [] = Inr c"
| "tracks_loop c (item # items) =
     (case item_body c item of
        (c', None) \<Rightarrow> tracks_loop c' items
      | (c', Some e) \<Rightarrow> Inl e)"

text \<open>
  The handlers around the whole of \<open>get_recently_played_tracks\<close>: a
  \<open>RequestException\<close> becomes a \<open>ConnectionError\<close>, a \<open>KeyError\<close> a new \<open>KeyError\<close>
  whose message names the key, any other exception a \<open>RuntimeError\<close>.
\<close>

fun handlers :: "error \<Rightarrow> error" where
  "handlers (RequestException m) = ConnectionError (RequestException m)"
| "handlers (KeyError k) = KeyError (''missing expected key in API response: '' @ k)"
| "handlers e = RuntimeError e"

definition tracks_body :: "error + json \<Rightarrow> error + json row list" where
  "tracks_body response =
     (case response of
        Inl e \<Rightarrow> Inl e
      | Inr data \<Rightarrow>
          (case not_in ''items'' data of
             Inl e \<Rightarrow> Inl e
           | Inr True \<Rightarrow> Inl (ValueError ''API response has no key items'')
           | Inr False \<Rightarrow>
               (case getitem data ''items'' of
                  Inl e \<Rightarrow> Inl e
                | Inr v \<Rightarrow>
                    (case py_iter v of
                       Inl e \<Rightarrow> Inl e
                     | Inr items \<Rightarrow>
                         (case tracks_loop no_columns items of
                            Inl e \<Rightarrow> Inl e
                          | Inr c \<Rightarrow> DataFrame c)))))"

definition get_recently_played_tracks :: "error + json \<Rightarrow> error + json row list" where
  "get_recently_played_tracks response =
     (case tracks_body response of Inl e \<Rightarrow> Inl (handlers e) | Inr df \<Rightarrow> Inr df)"

text \<open>Example responses: items as the API documents them, and one without \<open>track.album.artists\<close>.\<close>

definition api_item :: "string \<Rightarrow> string \<Rightarrow> string \<Rightarrow> json" where
  "api_item name artist played =
     JObj [(''track'', JObj [(''name'', JStr name),
                            (''album'', JObj [(''artists'', JArr [JObj [(''name'', JStr artist)]])])]),
           (''played_at'', JStr played)]"

definition item_without_artists :: "string \<Rightarrow> string \<Rightarrow> json" where
  "item_without_artists name played =
     JObj [(''track'', JObj [(''name'', JStr name), (''album'', JObj [])]),
           (''played_at'', JStr played)]"

definition response_with_malformed_item :: json where
  "response_with_malformed_item =
     JObj [(''items'',
        JArr [api_item ''s1'' ''A'' ''2024-01-01T10:00:00Z'',
              item_without_artists ''s2'' ''2024-01-01T11:00:00Z'',
              api_item ''s3'' ''B'' ''2024-01-01T12:00:00Z''])]"

definition response_without_items :: json where
  "response_without_items = JObj [(''error'', JStr ''unexpected'')]"

section \<open>Store and Loader\<close>

text \<open>
  A table of the relational store: its rows, and whether it carries the
  \<open>PRIMARY KEY\<close> constraint that \<open>CREATE TABLE\<close> in the source declares. The store
  holds the events table \<open>my_played_tracks\<close>, keyed by \<open>played_at\<close>, and the aggregate
  table \<open>fav_artist\<close>, keyed by \<open>ID\<close>; a table that does not exist is \<open>None\<close>.
\<close>

record 'r table =
  primary_key :: bool
  trows :: "'r list"

record db =
  my_played_tracks :: "cell row table option"
  fav_artist :: "agg table option"

definition fav_key :: "agg \<Rightarrow> string option" where
  "fav_key x = Some (agg_ID x)"

text \<open>
  An insert violates a primary key when a new row has a null key, a key that a row of the
  table has, or a key that another new row has.
\<close>

definition pk_violation :: "('r \<Rightarrow> 'k option) \<Rightarrow> 'r list \<Rightarrow> 'r list \<Rightarrow> bool" where
  "pk_violation key old new =
     (list_ex (\<lambda>r. key r = None \<or> key r \<in> set (map key old)) new \<or> \<not> distinct (map key new))"

text \<open>
  \<open>df.to_sql(name, engine, if_exists=...)\<close> of pandas, for the two modes the source
  uses. \<open>replace\<close> drops the table and creates a new one from the frame, which has no
  primary key; \<open>append\<close> inserts the rows into the table (creating it, without a primary
  key, when it does not exist), in one transaction: on a violation of the primary key the
  store raises \<open>IntegrityError\<close> and no row is inserted. The first argument is a failure
  of the store from outside (it is unavailable, or rejects the write for another reason):
  the exception it raises, if any.
\<close>

datatype if_exists = Append | Replace

definition to_sql ::
  "error option \<Rightarrow> ('r \<Rightarrow> 'k option) \<Rightarrow> if_exists \<Rightarrow> 'r table option \<Rightarrow> 'r list \<Rightarrow> error + 'r table" where
  "to_sql fault key mode tbl df =
     (case fault of
        Some e \<Rightarrow> Inl e
      | None \<Rightarrow>
          (case mode of
             Replace \<Rightarrow> Inr \<lparr>primary_key = False, trows = df\<rparr>
           | Append \<Rightarrow>
               (case tbl of
                  None \<Rightarrow> Inr \<lparr>primary_key = False, trows = df\<rparr>
                | Some t \<Rightarrow>
                    if primary_key t \<and> pk_violation key (trows t) df then Inl IntegrityError
                    else Inr (t\<lparr>trows := trows t @ df\<rparr>))))"

text \<open>
  What the pipeline prints, and what it logs at the level of an error: one constructor
  for each \<open>print\<close>, \<open>logger.error\<close> and \<open>logger.exception\<close> of the functions below.
  Logging at the level of information is left out.
\<close>

datatype msg =
    Print_start
  | Print_no_data
  | Print_extract_error error
  | Print_loaded nat
  | Print_load_error error
  | Log_empty_frame
  | Log_etl_aborted
  | Log_exception error
  | Print_transformed "agg list"
  | Print_extracting
  | Print_checking
  | Print_no_songs
  | Print_transforming
  | Print_connecting
  | Print_tables_created
  | Print_loading
  | Print_tracks_loaded
  | Print_tracks_error error
  | Print_fav_loaded
  | Print_fav_error error
  | Print_success
  | Print_error error

text \<open>
  \<open>load_data_to_db\<close> of \<open>load_music_data_to_postgres.py\<close>: each of the two frames is
  appended in a \<open>try\<close> of its own, whose handler prints the exception; the function
  returns in every case. \<open>f1\<close> and \<open>f2\<close> are the failures of the store at the two
  writes.
\<close>

definition load_data_to_db ::
  "error option \<Rightarrow> error option \<Rightarrow> db \<Rightarrow> frame \<Rightarrow> agg list \<Rightarrow> msg list \<times> db" where
  "load_data_to_db f1 f2 d load_df transformed_df =
     (let (out1, d1) =
            (case to_sql f1 played_at Append (my_played_tracks d) load_df of
               Inl e \<Rightarrow> ([Print_tracks_error e], d)
             | Inr t \<Rightarrow> ([Print_tracks_loaded], d\<lparr>my_played_tracks := Some t\<rparr>));
          (out2, d2) =
            (case to_sql f2 fav_key Append (fav_artist d1) transformed_df of
               Inl e \<Rightarrow> ([Print_fav_error e], d1)
             | Inr t \<Rightarrow> ([Print_fav_loaded], d1\<lparr>fav_artist := Some t\<rparr>))
      in (out1 @ out2, d2))"

text \<open>
  \<open>create_tables\<close>: two statements \<open>CREATE TABLE IF NOT EXISTS\<close>, run in order through
  \<open>conn.execute\<close>, each given as a plain string. \<open>refused\<close> is the exception with which
  the library refuses a statement that is a plain string, if it does (SQLAlchemy 2 does,
  for every statement), or with which the store fails; then nothing is created.
  Otherwise a statement for a table that exists does nothing. Both statements name the
  primary key \<open>primary_key_constraint\<close>, as the statement of the DAG does, and the store
  keeps one index of a name: a table cannot be created while another table carries the
  key, and the statement raises. So on a store with no table the first statement creates
  the events table and the second raises. A table created before the exception stays.
  The result is the store after the statements that ran, and the exception raised, if
  one was.
\<close>

definition keyed :: "'r table option \<Rightarrow> bool" where
  "keyed tbl = (case tbl of None \<Rightarrow> False | Some t \<Rightarrow> primary_key t)"

definition name_exists :: error where
  "name_exists = ProgrammingError ''relation primary_key_constraint already exists''"

definition create_tables :: "error option \<Rightarrow> db \<Rightarrow> db \<times> error option" where
  "create_tables refused d =
     (case refused of
        Some e \<Rightarrow> (d, Some e)
      | None \<Rightarrow>
          (if my_played_tracks d = None \<and> keyed (fav_artist d) then (d, Some name_exists)
           else
             (let d1 = (case my_played_tracks d of
                          None \<Rightarrow> d\<lparr>my_played_tracks := Some \<lparr>primary_key = True, trows = []\<rparr>\<rparr>
                        | Some t \<Rightarrow> d)
              in if fav_artist d1 = None \<and> keyed (my_played_tracks d1) then (d1, Some name_exists)
                 else
                   (case fav_artist d1 of
                      None \<Rightarrow> (d1\<lparr>fav_artist := Some \<lparr>primary_key = True, trows = []\<rparr>\<rparr>, None)
                    | Some t \<Rightarrow> (d1, None)))))"

text \<open>
  The script of \<open>load_music_data_to_postgres.py\<close> (its \<open>__main__\<close> block). The whole
  run is in one \<open>try\<close> whose handler prints the exception, so the script ends normally
  in every case; the result is what it printed and the store it leaves. \<open>extraction\<close> is
  the outcome of \<open>Extract.return_dataframe()\<close>, the quality gate and the aggregator are
  those of \<open>data_processing.py\<close>, and \<open>engine_fault\<close> is the exception that
  \<open>get_db_engine\<close> raises, if any.
\<close>

definition main ::
  "error + frame \<Rightarrow> error option \<Rightarrow> error option \<Rightarrow> error option \<Rightarrow> error option \<Rightarrow> db \<Rightarrow>
     msg list \<times> db" where
  "main extraction engine_fault refused f1 f2 d =
     (case extraction of
        Inl e \<Rightarrow> ([Print_extracting, Print_error e], d)
      | Inr load_df \<Rightarrow>
          (case Data_Quality load_df of
             Inl e \<Rightarrow> ([Print_extracting, Print_checking, Print_error e], d)
           | Inr False \<Rightarrow>
               ([Print_extracting, Print_checking, Print_no_songs,
                 Print_error (ValueError ''data quality check not passed'')], d)
           | Inr True \<Rightarrow>
               (let transformed_df = Transform_df load_df in
                case engine_fault of
                  Some e \<Rightarrow>
                    ([Print_extracting, Print_checking, Print_transforming, Print_connecting,
                      Print_error e], d)
                | None \<Rightarrow>
                    (case create_tables refused d of
                       (d0, Some e) \<Rightarrow>
                         ([Print_extracting, Print_checking, Print_transforming, Print_connecting,
                           Print_error e], d0)
                     | (d0, None) \<Rightarrow>
                         (let (out, d') = load_data_to_db f1 f2 d0 load_df transformed_df
                          in ([Print_extracting, Print_checking, Print_transforming,
                               Print_connecting, Print_tables_created, Print_loading] @ out @
                              [Print_success], d'))))))"

text \<open>
  The script of \<open>data_processing.py\<close> (its \<open>__main__\<close> block): extraction, the
  quality gate, whose result is not used, and the aggregator, whose result is printed.
  Nothing is caught, so an exception of the extraction or of the gate ends the script.
  The result is what it printed and the exception that ended it, if one did.
\<close>

definition data_processing_main :: "error + frame \<Rightarrow> msg list \<times> error option" where
  "data_processing_main extraction =
     (case extraction of
        Inl e \<Rightarrow> ([], Some e)
      | Inr load_df \<Rightarrow>
          (case Data_Quality load_df of
             Inl e \<Rightarrow> ([], Some e)
           | Inr ok \<Rightarrow>
               ((if ok then [] else [Print_no_songs]) @ [Print_transformed (Transform_df load_df)],
                None)))"

text \<open>
  \<open>spotify_etl\<close> of \<open>Dags/spotify_etl.py\<close>: extraction, quality gate, aggregation.
  \<open>extraction\<close> is the outcome of \<open>return_dataframe()\<close>. On \<open>False\<close> from the gate it
  returns an empty frame (\<open>pd.DataFrame()\<close>); an exception of any step is logged and
  raised again; else the aggregate is printed and the raw frame returned.
\<close>

definition spotify_etl :: "error + frame \<Rightarrow> msg list \<times> (error + frame)" where
  "spotify_etl extraction =
     (case extraction of
        Inl e \<Rightarrow> ([Log_exception e], Inl e)
      | Inr raw_df \<Rightarrow>
          (case data_quality raw_df of
             Inl e \<Rightarrow> ([Log_exception e], Inl e)
           | Inr False \<Rightarrow> ([Log_empty_frame, Log_etl_aborted], Inr [])
           | Inr True \<Rightarrow> ([Print_transformed (transform_df raw_df)], Inr raw_df)))"

text \<open>
  \<open>etl_process\<close> of \<open>Dags/spotify_etl_dag.py\<close>, the task of the DAG. An exception of
  \<open>spotify_etl\<close> is printed and raised again; an empty frame ends the task before the
  load; else the frame replaces the events table, and an exception of the connection or
  of the write (\<open>fault\<close>) is printed and raised again. The result is what was printed
  and logged, and the exception the task raised or the store it leaves.
\<close>

definition etl_process :: "error + frame \<Rightarrow> error option \<Rightarrow> db \<Rightarrow> msg list \<times> (error + db)" where
  "etl_process extraction fault d =
     (case spotify_etl extraction of
        (out, Inl e) \<Rightarrow> (Print_start # out @ [Print_extract_error e], Inl e)
      | (out, Inr df) \<Rightarrow>
          if df = [] then (Print_start # out @ [Print_no_data], Inr d)
          else
            (case to_sql fault played_at Replace (my_played_tracks d) df of
               Inl e \<Rightarrow> (Print_start # out @ [Print_load_error e], Inl e)
             | Inr t \<Rightarrow>
                 (Print_start # out @ [Print_loaded (length df)],
                  Inr (d\<lparr>my_played_tracks := Some t\<rparr>))))"

text \<open>
  Example stores: one with no table, and one whose events table, with its key, holds two
  events of earlier runs.
\<close>

definition no_tables :: db where
  "no_tables = \<lparr>my_played_tracks = None, fav_artist = None\<rparr>"

definition monday :: "cell row" where
  "monday = event ''s0'' ''A'' ''2023-12-25T09:00:00Z'' ''2023-12-25''"

definition tuesday :: "cell row" where
  "tuesday = event ''s1'' ''B'' ''2023-12-26T09:00:00Z'' ''2023-12-26''"

definition two_events_stored :: db where
  "two_events_stored =
     \<lparr>my_played_tracks = Some \<lparr>primary_key = True, trows = [monday, tuesday]\<rparr>,
      fav_artist = None\<rparr>"

definition unavailable :: error where
  "unavailable = OperationalError ''could not connect to server''"

lemmas example_defs = worked_example_def unnamed_song_def event_def

lemmas aggregator_defs =
  Transform_df_def transform_df_def group_keys_def group_rows_def row_key_def
  List.map_filter_def

lemmas quality_defs =
  Data_Quality_def data_quality_def is_unique_def isnull_any_def row_isnull_def

section \<open>Facts about grouping\<close>

lemma set_map_filter_eq: "set (List.map_filter f xs) = {y. \<exists>x\<in>set xs. f x = Some y}"
  by (induction xs) (auto simp: map_filter_simps split: option.splits)

lemma set_group_keys: "set (group_keys df) = {k. \<exists>r\<in>set df. row_key r = Some k}"
  by (simp add: group_keys_def set_map_filter_eq)

lemma distinct_group_keys: "distinct (group_keys df)"
  by (simp add: group_keys_def)

lemma sorted_group_keys: "sorted (group_keys df)"
  by (simp add: group_keys_def)

lemma strict_sorted_group_keys: "sorted_wrt (<) (group_keys df)"
  using sorted_group_keys distinct_group_keys by (simp add: strict_sorted_iff)

lemma group_keys_mset: "mset df = mset df' \<Longrightarrow> group_keys df = group_keys df'"
proof -
  assume "mset df = mset df'"
  then have "set df = set df'" by (rule mset_eq_setD)
  then have "set (group_keys df) = set (group_keys df')" by (simp add: set_group_keys)
  then show ?thesis
    using sorted_group_keys distinct_group_keys sorted_distinct_set_unique by blast
qed

lemma length_filter_mset:
  "mset df = mset df' \<Longrightarrow> length (filter P df) = length (filter P df')"
  by (metis mset_filter size_mset)

lemma row_key_Some:
  "row_key r = Some (t, a) \<longleftrightarrow> timestamp r = Some t \<and> artist_name r = Some a"
  by (simp add: row_key_def split: option.splits)

lemma group_rows_shares_key: "group_rows df (agg_key x) = filter (shares_key x) df"
  by (simp add: group_rows_def agg_key_def row_key_Some shares_key_def [abs_def])

lemma map_agg_key_Transform_df: "map agg_key (Transform_df df) = group_keys df"
  by (simp add: Transform_df_def agg_key_def comp_def case_prod_unfold)

lemma map_agg_key_transform_df: "map agg_key (transform_df df) = group_keys df"
  by (simp add: transform_df_def agg_key_def comp_def case_prod_unfold)

lemma Transform_df_mem:
  "x \<in> set (Transform_df df) \<Longrightarrow>
     agg_key x \<in> set (group_keys df) \<and>
     agg_ID x = agg_timestamp x @ ''-'' @ agg_artist_name x \<and>
     agg_count x = length (filter (\<lambda>r. played_at r \<noteq> None) (group_rows df (agg_key x)))"
  by (auto simp: Transform_df_def agg_key_def)

lemma transform_df_mem:
  "x \<in> set (transform_df df) \<Longrightarrow>
     agg_key x \<in> set (group_keys df) \<and>
     agg_ID x = agg_timestamp x @ ''-'' @ agg_artist_name x \<and>
     agg_count x = length (group_rows df (agg_key x))"
  by (auto simp: transform_df_def agg_key_def)

lemma length_filter_key:
  "distinct ks \<Longrightarrow> length (filter (\<lambda>k. k = k0) ks) = (if k0 \<in> set ks then 1 else 0)"
  by (induction ks) auto

lemma one_record_per_key:
  assumes "map agg_key out = group_keys df" and "r \<in> set df" and "row_key r = Some k"
  shows "length (filter (\<lambda>x. agg_key x = k) out) = 1"
proof -
  have "k \<in> set (group_keys df)" using assms(2,3) by (auto simp: set_group_keys)
  moreover have "length (filter (\<lambda>x. agg_key x = k) out)
      = length (filter (\<lambda>k'. k' = k) (map agg_key out))"
    by (simp add: filter_map comp_def)
  ultimately show ?thesis
    using assms(1) distinct_group_keys [of df] by (simp add: length_filter_key)
qed

lemma group_rows_nonnull:
  "\<not> isnull_any df \<Longrightarrow> filter (\<lambda>r. played_at r \<noteq> None) (group_rows df k) = group_rows df k"
  by (auto simp: group_rows_def isnull_any_def list_ex_iff row_isnull_def intro!: filter_cong)

lemma Transform_df_eq_transform_df:
  "\<not> isnull_any df \<Longrightarrow> Transform_df df = transform_df df"
  by (simp add: Transform_df_def transform_df_def group_rows_nonnull del: not_None_eq)

section \<open>Facts about the quality gates\<close>

lemma Data_Quality_True:
  "Data_Quality df = Inr True \<longleftrightarrow> df \<noteq> [] \<and> distinct (map played_at df) \<and> \<not> isnull_any df"
  by (simp add: Data_Quality_def is_unique_def)

lemma data_quality_True:
  "data_quality df = Inr True \<longleftrightarrow> df \<noteq> [] \<and> distinct (map played_at df) \<and> \<not> isnull_any df"
  by (simp add: data_quality_def is_unique_def)

lemma Data_Quality_Inl:
  "(\<exists>e. Data_Quality df = Inl e) \<longleftrightarrow> df \<noteq> [] \<and> (\<not> distinct (map played_at df) \<or> isnull_any df)"
  by (auto simp: Data_Quality_def is_unique_def)

lemma data_quality_Inl:
  "(\<exists>e. data_quality df = Inl e) \<longleftrightarrow> df \<noteq> [] \<and> (\<not> distinct (map played_at df) \<or> isnull_any df)"
  by (auto simp: data_quality_def is_unique_def)

lemma not_isnull_any_key:
  "\<not> isnull_any df \<Longrightarrow> r \<in> set df \<Longrightarrow> \<exists>t a. row_key r = Some (t, a)"
  by (auto simp: isnull_any_def list_ex_iff row_isnull_def row_key_Some)

section \<open>Facts about identifiers\<close>

lemma id_less:
  assumes "length t1 = length t2" and "(t1, a1) < (t2, a2)"
  shows "t1 @ ''-'' @ a1 < t2 @ ''-'' @ (a2 :: string)"
proof (cases "t1 = t2")
  case True
  with assms(2) have "a1 < a2" by (simp add: less_prod_def)
  then show ?thesis using True
    by (simp add: list_less_def lexord_append_leftI)
next
  case False
  with assms(2) have "t1 < t2" by (auto simp: less_prod_def)
  then show ?thesis using assms(1)
    by (simp add: list_less_def lexord_sufI)
qed

lemma key_date_length:
  assumes "dates_of_length n df" and "(t, a) \<in> set (group_keys df)"
  shows "length t = n"
proof -
  from assms(2) obtain r where "r \<in> set df" and "timestamp r = Some t"
    by (auto simp: set_group_keys row_key_Some)
  with assms(1) show ?thesis
    by (auto simp: dates_of_length_def list_all_iff)
qed

lemma sorted_ids_of_keys:
  assumes "\<forall>k\<in>set ks. length (fst k) = n" and "sorted_wrt (<) ks"
  shows "sorted_wrt (<) (map (\<lambda>(t, a). t @ ''-'' @ (a :: string)) ks)"
  using assms
proof (induction ks)
  case Nil
  then show ?case by simp
next
  case (Cons k ks)
  have "\<forall>k'\<in>set ks. (case k of (t, a) \<Rightarrow> t @ ''-'' @ a) < (case k' of (t, a) \<Rightarrow> t @ ''-'' @ a)"
  proof
    fix k' assume k': "k' \<in> set ks"
    obtain t a where k: "k = (t, a)" by (cases k)
    obtain t' a' where k'': "k' = (t', a')" by (cases k')
    have "length t = length t'" using Cons.prems(1) k k' k'' by auto
    moreover have "(t, a) < (t', a')" using Cons.prems(2) k k' k'' by auto
    ultimately show "(case k of (t, a) \<Rightarrow> t @ ''-'' @ a) < (case k' of (t, a) \<Rightarrow> t @ ''-'' @ a)"
      unfolding k k'' prod.case by (rule id_less)
  qed
  with Cons show ?case by simp
qed

lemma map_agg_ID_Transform_df:
  "map agg_ID (Transform_df df) = map (\<lambda>(t, a). t @ ''-'' @ a) (group_keys df)"
  by (simp add: Transform_df_def comp_def case_prod_unfold)

lemma map_agg_ID_transform_df:
  "map agg_ID (transform_df df) = map (\<lambda>(t, a). t @ ''-'' @ a) (group_keys df)"
  by (simp add: transform_df_def comp_def case_prod_unfold)

lemma sorted_ids_group_keys:
  "dates_of_length n df \<Longrightarrow> sorted_wrt (<) (map (\<lambda>(t, a). t @ ''-'' @ a) (group_keys df))"
  by (rule sorted_ids_of_keys [where n = n])
     (auto simp: key_date_length strict_sorted_group_keys)

lemma prefix_date_length:
  assumes "list_all date_is_prefix df" and "k \<in> set (group_keys df)"
  shows "length (fst k) = 10"
proof -
  obtain t a where k: "k = (t, a)" by (cases k)
  with assms(2) obtain r where r: "r \<in> set df" "timestamp r = Some (fst k)"
    by (auto simp: set_group_keys row_key_Some)
  from assms(1) r(1) have "date_is_prefix r" by (simp add: list_all_iff)
  with r(2) obtain p where "10 \<le> length p" and "fst k = take 10 p"
    by (auto simp: date_is_prefix_def split: option.splits)
  then show ?thesis by simp
qed

lemma prefix_dates_of_length:
  assumes "list_all date_is_prefix df"
  shows "dates_of_length 10 df"
proof -
  have "length t = 10" if "r \<in> set df" and "timestamp r = Some t" for r t
  proof -
    from assms that(1) have "date_is_prefix r" by (simp add: list_all_iff)
    with that(2) obtain p where "10 \<le> length p" and "t = take 10 p"
      by (auto simp: date_is_prefix_def split: option.splits)
    then show ?thesis by simp
  qed
  then show ?thesis
    by (auto simp: dates_of_length_def list_all_iff split: option.splits)
qed

section \<open>Facts about the loaders\<close>

lemmas store_defs = load_data_to_db_def to_sql_def pk_violation_def create_tables_def
  keyed_def name_exists_def main_def data_processing_main_def spotify_etl_def etl_process_def
  fav_key_def

lemmas store_examples = no_tables_def monday_def tuesday_def two_events_stored_def unavailable_def

lemmas extract_defs = return_dataframe_def get_recently_played_tracks_def tracks_body_def
  item_body_def artist_of_def DataFrame_def no_columns_def api_item_def
  item_without_artists_def response_with_malformed_item_def response_without_items_def

lemma tracks_append_conflict:
  assumes "primary_key t" and "\<exists>r\<in>set load_df. played_at r \<in> set (map played_at (trows t))"
  shows "to_sql None played_at Append (Some t) load_df = Inl IntegrityError"
  using assms by (auto simp: to_sql_def pk_violation_def list_ex_iff)

lemma tracks_append_cases:
  assumes "primary_key t" and "distinct (map played_at (trows t))"
  shows "(\<exists>e. to_sql f played_at Append (Some t) load_df = Inl e) \<or>
         (\<exists>t'. to_sql f played_at Append (Some t) load_df = Inr t' \<and> primary_key t' \<and>
            distinct (map played_at (trows t')) \<and> trows t' = trows t @ load_df)"
proof (cases "f = None \<and> \<not> pk_violation played_at (trows t) load_df")
  case True
  then have "distinct (map played_at (trows t @ load_df))"
    using assms(2) by (force simp: pk_violation_def list_ex_iff image_iff)
  with True assms(1) show ?thesis by (simp add: to_sql_def)
next
  case False
  with assms(1) show ?thesis by (auto simp: to_sql_def split: option.splits)
qed

lemma load_data_to_db_tracks:
  "my_played_tracks (snd (load_data_to_db f1 f2 d load_df transformed_df)) =
     (case to_sql f1 played_at Append (my_played_tracks d) load_df of
        Inl e \<Rightarrow> my_played_tracks d | Inr t \<Rightarrow> Some t)"
  by (simp add: load_data_to_db_def split: sum.splits prod.splits)

lemma etl_process_valid:
  assumes "data_quality df = Inr True"
  shows "etl_process (Inr df) fault d =
     (case fault of
        Some e \<Rightarrow> ([Print_start, Print_transformed (transform_df df), Print_load_error e], Inl e)
      | None \<Rightarrow> ([Print_start, Print_transformed (transform_df df), Print_loaded (length df)],
                  Inr (d\<lparr>my_played_tracks := Some \<lparr>primary_key = False, trows = df\<rparr>\<rparr>)))"
proof -
  from assms have "df \<noteq> []" by (auto simp: data_quality_def split: if_splits)
  with assms show ?thesis
    by (simp add: etl_process_def spotify_etl_def to_sql_def split: option.splits)
qed



section \<open>Facts about the extractors\<close>

lemma item_body_keeps_le:
  "length (artist_names c) \<le> length (song_names c) \<Longrightarrow>
     length (artist_names (fst (item_body c item))) \<le> length (song_names (fst (item_body c item)))"
  by (simp add: item_body_def Let_def split: sum.splits)

lemma item_body_keeps_less:
  "length (artist_names c) < length (song_names c) \<Longrightarrow>
     length (artist_names (fst (item_body c item))) < length (song_names (fst (item_body c item)))"
  by (simp add: item_body_def Let_def split: sum.splits)

lemma item_body_without_artists:
  assumes "getpath item [''track'', ''name''] = Inr n" and "artist_of item = Inl e"
  shows "item_body c item = (c\<lparr>song_names := song_names c @ [n]\<rparr>, Some e)"
  using assms by (simp add: item_body_def)

lemma return_dataframe_loop_append:
  "return_dataframe_loop c w (xs @ ys) =
     (case return_dataframe_loop c w xs of
        (ws, Inl e) \<Rightarrow> (ws, Inl e)
      | (ws, Inr c') \<Rightarrow> return_dataframe_loop c' ws ys)"
  by (induction xs arbitrary: c w) (simp_all split: prod.splits option.splits error.splits sum.splits)

lemma return_dataframe_loop_keeps_le:
  "length (artist_names c) \<le> length (song_names c) \<Longrightarrow>
     return_dataframe_loop c w xs = (ws, Inr c') \<Longrightarrow>
     length (artist_names c') \<le> length (song_names c')"
proof (induction xs arbitrary: c w)
  case Nil
  then show ?case by simp
next
  case (Cons x xs)
  obtain c1 r where b: "item_body c x = (c1, r)" by (cases "item_body c x")
  have le1: "length (artist_names c1) \<le> length (song_names c1)"
    using item_body_keeps_le [OF Cons.prems(1), of x] b by simp
  from Cons.prems(2) b show ?case
    by (auto split: option.splits error.splits dest: Cons.IH [OF le1])
qed

lemma return_dataframe_loop_keeps_less:
  "length (artist_names c) < length (song_names c) \<Longrightarrow>
     return_dataframe_loop c w xs = (ws, Inr c') \<Longrightarrow>
     length (artist_names c') < length (song_names c')"
proof (induction xs arbitrary: c w)
  case Nil
  then show ?case by simp
next
  case (Cons x xs)
  obtain c1 r where b: "item_body c x = (c1, r)" by (cases "item_body c x")
  have less1: "length (artist_names c1) < length (song_names c1)"
    using item_body_keeps_less [OF Cons.prems(1), of x] b by simp
  from Cons.prems(2) b show ?case
    by (auto split: option.splits error.splits dest: Cons.IH [OF less1])
qed

lemma DataFrame_unequal:
  "length (artist_names c) < length (song_names c) \<Longrightarrow>
     DataFrame c = Inl (ValueError ''All arrays must be of the same length'')"
  by (simp add: DataFrame_def)

lemma return_dataframe_loop_fails:
  assumes "getpath bad [''track'', ''name''] = Inr n" and "artist_of bad = Inl (KeyError k)"
    and "length (artist_names c) \<le> length (song_names c)"
    and "return_dataframe_loop c w (xs @ bad # ys) = (ws, Inr c')"
  shows "length (artist_names c') < length (song_names c')"
proof -
  from assms(4) obtain w1 c1 where
    pre: "return_dataframe_loop c w xs = (w1, Inr c1)" and
    rest: "return_dataframe_loop c1 w1 (bad # ys) = (ws, Inr c')"
    by (auto simp: return_dataframe_loop_append split: prod.splits sum.splits)
  have "length (artist_names c1) \<le> length (song_names c1)"
    using assms(3) pre by (rule return_dataframe_loop_keeps_le)
  then have less: "length (artist_names (c1\<lparr>song_names := song_names c1 @ [n]\<rparr>))
      < length (song_names (c1\<lparr>song_names := song_names c1 @ [n]\<rparr>))"
    by simp
  from rest have "return_dataframe_loop (c1\<lparr>song_names := song_names c1 @ [n]\<rparr>) (w1 @ [k]) ys
      = (ws, Inr c')"
    by (simp add: item_body_without_artists [OF assms(1,2)])
  with less show ?thesis by (rule return_dataframe_loop_keeps_less)
qed

lemma tracks_loop_append:
  "tracks_loop c (xs @ ys) =
     (case tracks_loop c xs of Inl e \<Rightarrow> Inl e | Inr c' \<Rightarrow> tracks_loop c' ys)"
  by (induction xs arbitrary: c) (simp_all split: prod.splits option.splits)

lemma tracks_loop_fails:
  assumes "getpath bad [''track'', ''name''] = Inr n" and "artist_of bad = Inl e"
  shows "\<exists>e'. tracks_loop c (xs @ bad # ys) = Inl e'"
  by (cases "tracks_loop c xs")
     (simp_all add: tracks_loop_append item_body_without_artists [OF assms])

section \<open>Aggregation: one record per key, with the exact count\<close>

text \<open>
  Claim C1. For a batch that the quality gate accepts (non-empty, no repeated
  \<open>played_at\<close>, no null), both aggregators output, for every (date, artist) pair of an
  event of the batch, exactly one record with that pair; every record they output has the
  pair of some event of the batch, and its count is the number of events of the batch
  with that pair.
\<close>

theorem aggregation_counts:
  assumes "Data_Quality load_df = Inr True"
  shows "(\<forall>r\<in>set load_df. \<exists>t a. timestamp r = Some t \<and> artist_name r = Some a \<and>
            length (filter (\<lambda>x. agg_key x = (t, a)) (Transform_df load_df)) = 1 \<and>
            length (filter (\<lambda>x. agg_key x = (t, a)) (transform_df load_df)) = 1) \<and>
         (\<forall>x\<in>set (Transform_df load_df) \<union> set (transform_df load_df).
            (\<exists>r\<in>set load_df. shares_key x r) \<and>
            agg_count x = length (filter (shares_key x) load_df))"
proof -
  from assms have nn: "\<not> isnull_any load_df" by (simp add: Data_Quality_True)
  have one: "\<exists>t a. timestamp r = Some t \<and> artist_name r = Some a \<and>
            length (filter (\<lambda>x. agg_key x = (t, a)) (Transform_df load_df)) = 1 \<and>
            length (filter (\<lambda>x. agg_key x = (t, a)) (transform_df load_df)) = 1"
    if r: "r \<in> set load_df" for r
  proof -
    from nn r obtain t a where k: "row_key r = Some (t, a)"
      using not_isnull_any_key by blast
    have "length (filter (\<lambda>x. agg_key x = (t, a)) (Transform_df load_df)) = 1"
      using map_agg_key_Transform_df r k by (rule one_record_per_key)
    moreover have "length (filter (\<lambda>x. agg_key x = (t, a)) (transform_df load_df)) = 1"
      using map_agg_key_transform_df r k by (rule one_record_per_key)
    ultimately show ?thesis
      using k by (auto simp: row_key_Some)
  qed
  have exact: "(\<exists>r\<in>set load_df. shares_key x r) \<and>
            agg_count x = length (filter (shares_key x) load_df)"
    if x: "x \<in> set (Transform_df load_df) \<union> set (transform_df load_df)" for x
  proof -
    from x have "x \<in> set (transform_df load_df)"
      using Transform_df_eq_transform_df [OF nn] by simp
    then have key: "agg_key x \<in> set (group_keys load_df)"
      and cnt: "agg_count x = length (group_rows load_df (agg_key x))"
      by (simp_all add: transform_df_mem)
    from key obtain r where "r \<in> set load_df" and "row_key r = Some (agg_key x)"
      by (auto simp: set_group_keys)
    then have "\<exists>r\<in>set load_df. shares_key x r"
      by (auto simp: agg_key_def row_key_Some shares_key_def)
    with cnt show ?thesis
      by (simp add: group_rows_shares_key)
  qed
  from one exact show ?thesis by blast
qed

text \<open>The worked example of the specification: A is counted twice, B once.\<close>

theorem aggregation_counts_witness:
  "Data_Quality worked_example = Inr True \<and>
   Transform_df worked_example =
     [\<lparr>agg_ID = ''2024-01-01-A'', agg_timestamp = ''2024-01-01'', agg_artist_name = ''A'',
       agg_count = 2\<rparr>,
      \<lparr>agg_ID = ''2024-01-01-B'', agg_timestamp = ''2024-01-01'', agg_artist_name = ''B'',
       agg_count = 1\<rparr>] \<and>
   length (filter (\<lambda>x. agg_key x = (''2024-01-01'', ''A'')) (Transform_df worked_example)) = 1 \<and>
   length (filter (shares_key (hd (Transform_df worked_example))) worked_example) = 2"
proof -
  have valid: "Data_Quality worked_example = Inr True"
    by (simp add: quality_defs example_defs)
  have out: "Transform_df worked_example =
     [\<lparr>agg_ID = ''2024-01-01-A'', agg_timestamp = ''2024-01-01'', agg_artist_name = ''A'',
       agg_count = 2\<rparr>,
      \<lparr>agg_ID = ''2024-01-01-B'', agg_timestamp = ''2024-01-01'', agg_artist_name = ''B'',
       agg_count = 1\<rparr>]"
    by (simp add: aggregator_defs example_defs)
  have first: "hd worked_example \<in> set worked_example"
    by (simp add: example_defs)
  have hd_out: "hd (Transform_df worked_example) \<in> set (Transform_df worked_example) \<union> set (transform_df worked_example)"
    by (simp add: out)
  from aggregation_counts [OF valid] first hd_out
  have "length (filter (\<lambda>x. agg_key x = (''2024-01-01'', ''A'')) (Transform_df worked_example)) = 1"
    and "agg_count (hd (Transform_df worked_example)) =
         length (filter (shares_key (hd (Transform_df worked_example))) worked_example)"
    by (auto simp: example_defs)
  with valid out show ?thesis by simp
qed

section \<open>QualityGate: what is rejected\<close>

text \<open>
  Claim C2, as the code has it. On a non-empty batch each quality gate raises exactly
  when two events share a \<open>played_at\<close> value or some cell is null; otherwise it
  returns \<open>True\<close>. An empty string is not null.
\<close>

theorem quality_gate_rejects_iff:
  assumes "df \<noteq> []"
  shows "((\<exists>e. Data_Quality df = Inl e) \<longleftrightarrow> \<not> distinct (map played_at df) \<or> isnull_any df) \<and>
         ((\<exists>e. data_quality df = Inl e) \<longleftrightarrow> \<not> distinct (map played_at df) \<or> isnull_any df) \<and>
         (distinct (map played_at df) \<and> \<not> isnull_any df \<longrightarrow>
            Data_Quality df = Inr True \<and> data_quality df = Inr True)"
  using assms by (simp add: Data_Quality_Inl data_quality_Inl Data_Quality_True data_quality_True)

theorem quality_gate_rejects_iff_witness:
  "worked_example \<noteq> [] \<and> distinct (map played_at worked_example) \<and>
   \<not> isnull_any worked_example \<and>
   Data_Quality worked_example = Inr True \<and> data_quality worked_example = Inr True"
proof -
  have ne: "worked_example \<noteq> []" by (simp add: example_defs)
  have ok: "distinct (map played_at worked_example) \<and> \<not> isnull_any worked_example"
    by (simp add: example_defs isnull_any_def row_isnull_def)
  with quality_gate_rejects_iff [OF ne] ne show ?thesis by blast
qed

text \<open>
  The claim as stated also rejects an empty field. A batch of one event whose song name
  is the empty string has an empty required field, and both gates accept it.
\<close>

theorem empty_field_accepted_counterexample:
  "unnamed_song \<noteq> [] \<and> list_ex spec_row_null_or_empty unnamed_song \<and>
   Data_Quality unnamed_song = Inr True \<and> data_quality unnamed_song = Inr True"
  by (simp add: example_defs quality_defs spec_row_null_or_empty_def spec_null_or_empty_def)

section \<open>Aggregation: determinism and order\<close>

text \<open>
  Claim C8. The output of each aggregator depends only on the multiset of events of the
  batch, so aggregating a batch again, in any order of its rows, gives the same records
  with the same id, date, artist and count. For every batch of events as the data model
  has them, each date the first ten characters of the event's \<open>played_at\<close>, the output
  of each aggregator is in strictly ascending order of the id.
\<close>

theorem aggregation_deterministic_ordered:
  "(mset df = mset df' \<longrightarrow>
      Transform_df df = Transform_df df' \<and> transform_df df = transform_df df') \<and>
   (list_all date_is_prefix df \<longrightarrow>
      sorted_wrt (<) (map agg_ID (Transform_df df)) \<and>
      sorted_wrt (<) (map agg_ID (transform_df df)))"
proof -
  have "Transform_df df = Transform_df df' \<and> transform_df df = transform_df df'"
    if "mset df = mset df'"
  proof -
    have "group_keys df = group_keys df'" using that by (rule group_keys_mset)
    moreover have "\<And>P. length (filter P df) = length (filter P df')"
      using that by (rule length_filter_mset)
    ultimately show ?thesis
      by (simp add: Transform_df_def transform_df_def group_rows_def)
  qed
  moreover have "sorted_wrt (<) (map agg_ID (Transform_df df)) \<and>
      sorted_wrt (<) (map agg_ID (transform_df df))" if "list_all date_is_prefix df"
  proof -
    from that have "dates_of_length 10 df" by (rule prefix_dates_of_length)
    then show ?thesis
      by (simp only: map_agg_ID_Transform_df map_agg_ID_transform_df sorted_ids_group_keys)
  qed
  ultimately show ?thesis by blast
qed

text \<open>
  The worked example, which passes the quality gate: its rows in reverse give the same
  records, and the ids come out ascending.
\<close>

theorem aggregation_deterministic_ordered_witness:
  "mset worked_example = mset (rev worked_example) \<and>
   Data_Quality worked_example = Inr True \<and>
   list_all date_is_prefix worked_example \<and>
   Transform_df worked_example = Transform_df (rev worked_example) \<and>
   sorted_wrt (<) (map agg_ID (Transform_df worked_example)) \<and>
   map agg_ID (Transform_df worked_example) = [''2024-01-01-A'', ''2024-01-01-B'']"
proof -
  have m: "mset worked_example = mset (rev worked_example)" by simp
  have d: "list_all date_is_prefix worked_example"
    by (simp add: date_is_prefix_def example_defs)
  have v: "Data_Quality worked_example = Inr True"
    by (simp add: quality_defs example_defs)
  have ids: "map agg_ID (Transform_df worked_example) = [''2024-01-01-A'', ''2024-01-01-B'']"
    by (simp add: aggregator_defs example_defs)
  from aggregation_deterministic_ordered [of worked_example "rev worked_example"] m d
  have "Transform_df worked_example = Transform_df (rev worked_example)"
    and "sorted_wrt (<) (map agg_ID (Transform_df worked_example))"
    by blast+
  with m d v ids show ?thesis by (simp only: simp_thms)
qed

section \<open>Aggregation: the id determines the key\<close>

text \<open>
  Claim C9. Take two aggregate records, produced by either aggregator from batches in
  which every date is the ten-character prefix of the event's \<open>played_at\<close>. If their
  ids are equal, so are their dates and their artist names.
\<close>

theorem id_determines_key:
  assumes "list_all date_is_prefix df1" and "list_all date_is_prefix df2"
    and "x1 \<in> set (Transform_df df1) \<union> set (transform_df df1)"
    and "x2 \<in> set (Transform_df df2) \<union> set (transform_df df2)"
    and "agg_ID x1 = agg_ID x2"
  shows "agg_timestamp x1 = agg_timestamp x2 \<and> agg_artist_name x1 = agg_artist_name x2"
proof -
  have shape: "agg_key x \<in> set (group_keys df) \<and>
      agg_ID x = agg_timestamp x @ ''-'' @ agg_artist_name x"
    if "x \<in> set (Transform_df df) \<union> set (transform_df df)" for x df
    using that Transform_df_mem transform_df_mem by blast
  have len: "length (agg_timestamp x) = 10"
    if "list_all date_is_prefix df" and "x \<in> set (Transform_df df) \<union> set (transform_df df)"
    for x df
    using prefix_date_length [OF that(1), of "agg_key x"] shape [OF that(2)]
    by (simp add: agg_key_def)
  have "length (agg_timestamp x1) = length (agg_timestamp x2)"
    using len [OF assms(1,3)] len [OF assms(2,4)] by simp
  moreover have "agg_timestamp x1 @ ''-'' @ agg_artist_name x1 =
      agg_timestamp x2 @ ''-'' @ agg_artist_name x2"
    using shape [OF assms(3)] shape [OF assms(4)] assms(5) by simp
  ultimately show ?thesis by simp
qed

theorem id_determines_key_witness:
  "list_all date_is_prefix worked_example \<and>
   hd (Transform_df worked_example) \<in> set (Transform_df worked_example) \<and>
   hd (transform_df (rev worked_example)) \<in> set (transform_df (rev worked_example)) \<and>
   agg_ID (hd (Transform_df worked_example)) = agg_ID (hd (transform_df (rev worked_example))) \<and>
   agg_timestamp (hd (Transform_df worked_example)) =
     agg_timestamp (hd (transform_df (rev worked_example))) \<and>
   agg_artist_name (hd (Transform_df worked_example)) =
     agg_artist_name (hd (transform_df (rev worked_example)))"
proof -
  have p1: "list_all date_is_prefix worked_example"
    by (simp add: date_is_prefix_def example_defs)
  have p2: "list_all date_is_prefix (rev worked_example)"
    by (simp add: date_is_prefix_def example_defs)
  have m1: "hd (Transform_df worked_example) \<in> set (Transform_df worked_example)"
    by (simp add: aggregator_defs example_defs)
  have m2: "hd (transform_df (rev worked_example)) \<in> set (transform_df (rev worked_example))"
    by (simp add: aggregator_defs example_defs)
  have e: "agg_ID (hd (Transform_df worked_example)) = agg_ID (hd (transform_df (rev worked_example)))"
    by (simp add: aggregator_defs example_defs)
  from id_determines_key [OF p1 p2 _ _ e] m1 m2
  have "agg_timestamp (hd (Transform_df worked_example)) =
     agg_timestamp (hd (transform_df (rev worked_example))) \<and>
   agg_artist_name (hd (Transform_df worked_example)) =
     agg_artist_name (hd (transform_df (rev worked_example)))"
    by blast
  with p1 m1 m2 e show ?thesis by simp
qed

section \<open>The two aggregators agree\<close>

text \<open>
  Claim C10. On a batch with no null cell, \<open>Transform_df\<close> (the count of non-null
  \<open>played_at\<close> cells per group) and \<open>transform_df\<close> (the size of each group) give
  the same records, in the same order.
\<close>

theorem aggregators_agree:
  assumes "\<not> isnull_any df"
  shows "Transform_df df = transform_df df \<and> set (Transform_df df) = set (transform_df df)"
  using assms by (simp add: Transform_df_eq_transform_df)

theorem aggregators_agree_witness:
  "\<not> isnull_any worked_example \<and> Transform_df worked_example = transform_df worked_example \<and>
   map agg_count (transform_df worked_example) = [2, 1]"
proof -
  have n: "\<not> isnull_any worked_example"
    by (simp add: example_defs isnull_any_def row_isnull_def)
  have "map agg_count (transform_df worked_example) = [2, 1]"
    by (simp add: aggregator_defs example_defs)
  with aggregators_agree [OF n] n show ?thesis by simp
qed

section \<open>Loading the events table\<close>

text \<open>
  Claim C3, as the code has it. Let the events table carry its primary key and hold no
  \<open>played_at\<close> twice. A run of \<open>load_data_to_db\<close> with a batch that contains a
  \<open>played_at\<close> of the table is a rejected conflict: the table is left as it was. After
  any run of \<open>load_data_to_db\<close> the table still has its key and no \<open>played_at\<close>
  twice, and its rows are the earlier rows, unchanged, followed by the batch or by
  nothing. The loader of the DAG, \<open>etl_process\<close>, replaces the table by the batch, which
  the quality gate has checked to hold no \<open>played_at\<close> twice.
\<close>

theorem events_load_semantics:
  assumes "my_played_tracks d = Some t" and "primary_key t"
    and "distinct (map played_at (trows t))"
  shows "((\<exists>r\<in>set load_df. played_at r \<in> set (map played_at (trows t))) \<longrightarrow>
            my_played_tracks (snd (load_data_to_db f1 f2 d load_df transformed_df)) = Some t) \<and>
         (\<exists>t'. my_played_tracks (snd (load_data_to_db f1 f2 d load_df transformed_df)) = Some t' \<and>
            primary_key t' \<and> distinct (map played_at (trows t')) \<and>
            (trows t' = trows t \<or> trows t' = trows t @ load_df)) \<and>
         (data_quality df = Inr True \<longrightarrow>
            distinct (map played_at df) \<and>
            snd (etl_process (Inr df) None d) =
              Inr (d\<lparr>my_played_tracks := Some \<lparr>primary_key = False, trows = df\<rparr>\<rparr>))"
proof (intro conjI impI)
  assume c: "\<exists>r\<in>set load_df. played_at r \<in> set (map played_at (trows t))"
  have "to_sql f1 played_at Append (Some t) load_df = Inl IntegrityError \<or>
        (\<exists>e. f1 = Some e \<and> to_sql f1 played_at Append (Some t) load_df = Inl e)"
    using tracks_append_conflict [OF assms(2) c] by (cases f1) (simp_all add: to_sql_def)
  then show "my_played_tracks (snd (load_data_to_db f1 f2 d load_df transformed_df)) = Some t"
    using assms(1) by (auto simp: load_data_to_db_tracks)
next
  show "\<exists>t'. my_played_tracks (snd (load_data_to_db f1 f2 d load_df transformed_df)) = Some t' \<and>
            primary_key t' \<and> distinct (map played_at (trows t')) \<and>
            (trows t' = trows t \<or> trows t' = trows t @ load_df)"
    using tracks_append_cases [OF assms(2,3), of f1 load_df] assms
    by (auto simp: load_data_to_db_tracks)
next
  assume "data_quality df = Inr True"
  then show "distinct (map played_at df)"
    by (auto simp: data_quality_def is_unique_def split: if_splits)
next
  assume "data_quality df = Inr True"
  then show "snd (etl_process (Inr df) None d) =
              Inr (d\<lparr>my_played_tracks := Some \<lparr>primary_key = False, trows = df\<rparr>\<rparr>)"
    by (simp add: etl_process_valid)
qed

theorem events_load_semantics_witness:
  "my_played_tracks two_events_stored = Some \<lparr>primary_key = True, trows = [monday, tuesday]\<rparr> \<and>
   played_at tuesday \<in> set (map played_at [monday, tuesday]) \<and>
   load_data_to_db None None two_events_stored [tuesday] (Transform_df [tuesday]) =
     ([Print_tracks_error IntegrityError, Print_fav_loaded],
      two_events_stored\<lparr>fav_artist := Some \<lparr>primary_key = False, trows = Transform_df [tuesday]\<rparr>\<rparr>) \<and>
   my_played_tracks (snd (load_data_to_db None None two_events_stored [tuesday] (Transform_df [tuesday])))
     = Some \<lparr>primary_key = True, trows = [monday, tuesday]\<rparr>"
proof -
  let ?t = "\<lparr>primary_key = True, trows = [monday, tuesday]\<rparr>"
  have a: "my_played_tracks two_events_stored = Some ?t"
    by (simp add: two_events_stored_def)
  have b: "primary_key ?t" by simp
  have c: "distinct (map played_at (trows ?t))"
    by (simp add: monday_def tuesday_def event_def)
  have d: "\<exists>r\<in>set [tuesday]. played_at r \<in> set (map played_at (trows ?t))" by simp
  have e: "load_data_to_db None None two_events_stored [tuesday] (Transform_df [tuesday]) =
     ([Print_tracks_error IntegrityError, Print_fav_loaded],
      two_events_stored\<lparr>fav_artist := Some \<lparr>primary_key = False, trows = Transform_df [tuesday]\<rparr>\<rparr>)"
    by (simp add: load_data_to_db_def to_sql_def pk_violation_def two_events_stored_def
        fav_key_def aggregator_defs tuesday_def monday_def event_def)
  from events_load_semantics [OF a b c, of "[tuesday]" None None "Transform_df [tuesday]"] d
  have "my_played_tracks (snd (load_data_to_db None None two_events_stored [tuesday] (Transform_df [tuesday])))
     = Some ?t" by blast
  with a e show ?thesis by simp
qed

text \<open>
  The claim as stated fails for \<open>etl_process\<close>: with two events stored by earlier
  runs, a run whose batch holds the second of them leaves a table of that one event; the
  first, with another \<open>played_at\<close>, is gone.
\<close>

theorem replace_drops_history_counterexample:
  "data_quality [tuesday] = Inr True \<and>
   my_played_tracks two_events_stored = Some \<lparr>primary_key = True, trows = [monday, tuesday]\<rparr> \<and>
   played_at tuesday \<in> set (map played_at [monday, tuesday]) \<and>
   played_at monday \<noteq> played_at tuesday \<and>
   snd (etl_process (Inr [tuesday]) None two_events_stored) =
     Inr (two_events_stored\<lparr>my_played_tracks := Some \<lparr>primary_key = False, trows = [tuesday]\<rparr>\<rparr>)"
  by (simp add: quality_defs store_defs store_examples event_def)

section \<open>A run with no events\<close>

text \<open>
  Claim C4, as the code has it, for the two runs that act on the result of the quality
  gate: the task of the DAG and the script of \<open>load_music_data_to_postgres.py\<close>. On an
  empty batch both quality gates return \<open>False\<close> and raise nothing. The task of the DAG
  then ends normally, before the aggregator and the load, and leaves the store as it
  was. The script turns the \<open>False\<close> into a \<open>ValueError\<close>, which it prints as an error;
  it too runs neither the aggregator nor the loader and leaves the store as it was.
\<close>

theorem empty_batch_run:
  "data_quality [] = Inr False \<and> Data_Quality [] = Inr False \<and>
   etl_process (Inr []) fault d =
     ([Print_start, Log_empty_frame, Log_etl_aborted, Print_no_data], Inr d) \<and>
   main (Inr []) engine_fault refused f1 f2 d =
     ([Print_extracting, Print_checking, Print_no_songs,
       Print_error (ValueError ''data quality check not passed'')], d)"
  by (simp add: data_quality_def Data_Quality_def etl_process_def spotify_etl_def main_def)

theorem empty_batch_run_witness:
  "etl_process (Inr []) (Some unavailable) two_events_stored =
     ([Print_start, Log_empty_frame, Log_etl_aborted, Print_no_data], Inr two_events_stored) \<and>
   snd (main (Inr []) None None None None two_events_stored) = two_events_stored"
  using empty_batch_run [of "Some unavailable" two_events_stored None None None None]
    empty_batch_run [of None two_events_stored None None None None]
  by simp

text \<open>
  The claim as stated has every run with no events skip the aggregator and report
  success. The script of \<open>load_music_data_to_postgres.py\<close> prints the error and never
  its message of success. The script of \<open>data_processing.py\<close>, a third run, does not
  use the result of the gate: it goes on to the aggregator and prints the empty
  aggregate.
\<close>

theorem empty_batch_script_counterexample:
  "fst (main (Inr []) None None None None no_tables) =
     [Print_extracting, Print_checking, Print_no_songs,
      Print_error (ValueError ''data quality check not passed'')] \<and>
   Print_success \<notin> set (fst (main (Inr []) None None None None no_tables)) \<and>
   data_processing_main (Inr []) = ([Print_no_songs, Print_transformed []], None)"
  by (simp add: main_def data_processing_main_def Data_Quality_def Transform_df_def
      group_keys_def List.map_filter_def)

section \<open>A failure of the load\<close>




section \<open>Extraction of a response with a malformed item\<close>

text \<open>
  Claim C5, on the code. Let an item of the response have a track name while the lookup
  of its first artist's name raises \<open>KeyError\<close>, as it does for an item without
  \<open>track.album.artists\<close>. Whatever the other items are, both extractors raise. In
  \<open>return_dataframe\<close> the name of the song is appended before the \<open>KeyError\<close> is
  raised; the handler logs the warning and goes on, but from then on the list of song
  names is longer than the list of artist names, and building the frame raises
  \<open>ValueError\<close>. \<open>get_recently_played_tracks\<close> has no handler in its loop.
\<close>

theorem item_without_artists_fails_extraction:
  assumes "getpath bad [''track'', ''name''] = Inr n" and "artist_of bad = Inl (KeyError k)"
  shows "(\<exists>ws e. return_dataframe (Inr (JObj [(''items'', JArr (xs @ bad # ys))])) = (ws, Inl e)) \<and>
         (\<exists>e. get_recently_played_tracks (Inr (JObj [(''items'', JArr (xs @ bad # ys))])) = Inl e)"
proof
  obtain ws r where l: "return_dataframe_loop no_columns [] (xs @ bad # ys) = (ws, r)"
    by (cases "return_dataframe_loop no_columns [] (xs @ bad # ys)")
  show "\<exists>ws e. return_dataframe (Inr (JObj [(''items'', JArr (xs @ bad # ys))])) = (ws, Inl e)"
  proof (cases r)
    case (Inl e)
    with l show ?thesis by (simp add: return_dataframe_def)
  next
    case (Inr c')
    have "length (artist_names no_columns) \<le> length (song_names no_columns)"
      by (simp add: no_columns_def)
    with assms have "length (artist_names c') < length (song_names c')"
      using l [unfolded Inr] by (rule return_dataframe_loop_fails)
    then have "DataFrame c' = Inl (ValueError ''All arrays must be of the same length'')"
      by (rule DataFrame_unequal)
    with l Inr show ?thesis by (simp add: return_dataframe_def)
  qed
next
  from tracks_loop_fails [OF assms, of no_columns xs ys]
  obtain e' where "tracks_loop no_columns (xs @ bad # ys) = Inl e'" by blast
  then show "\<exists>e. get_recently_played_tracks (Inr (JObj [(''items'', JArr (xs @ bad # ys))])) = Inl e"
    by (simp add: get_recently_played_tracks_def tracks_body_def)
qed

text \<open>
  A response of three items of which the second has no \<open>track.album.artists\<close>: one
  warning, for the key \<open>artists\<close>, and no frame.
\<close>

theorem item_without_artists_fails_extraction_witness:
  "getpath (item_without_artists ''s2'' ''2024-01-01T11:00:00Z'') [''track'', ''name''] = Inr (JStr ''s2'') \<and>
   artist_of (item_without_artists ''s2'' ''2024-01-01T11:00:00Z'') = Inl (KeyError ''artists'') \<and>
   return_dataframe (Inr response_with_malformed_item) =
     ([''artists''], Inl (ValueError ''All arrays must be of the same length'')) \<and>
   get_recently_played_tracks (Inr response_with_malformed_item) =
     Inl (KeyError ''missing expected key in API response: artists'')"
proof -
  let ?bad = "item_without_artists ''s2'' ''2024-01-01T11:00:00Z''"
  have a: "getpath ?bad [''track'', ''name''] = Inr (JStr ''s2'')"
    by (simp add: item_without_artists_def)
  have b: "artist_of ?bad = Inl (KeyError ''artists'')"
    by (simp add: item_without_artists_def artist_of_def)
  have shape: "response_with_malformed_item =
      JObj [(''items'', JArr ([api_item ''s1'' ''A'' ''2024-01-01T10:00:00Z''] @ ?bad #
        [api_item ''s3'' ''B'' ''2024-01-01T12:00:00Z'']))]"
    by (simp add: response_with_malformed_item_def)
  from item_without_artists_fails_extraction [OF a b,
      of "[api_item ''s1'' ''A'' ''2024-01-01T10:00:00Z'']"
         "[api_item ''s3'' ''B'' ''2024-01-01T12:00:00Z'']"]
  obtain ws e e' where
    r1: "return_dataframe (Inr response_with_malformed_item) = (ws, Inl e)" and
    r2: "get_recently_played_tracks (Inr response_with_malformed_item) = Inl e'"
    unfolding shape by blast
  have v1: "return_dataframe (Inr response_with_malformed_item) =
     ([''artists''], Inl (ValueError ''All arrays must be of the same length''))"
    by (simp add: extract_defs)
  have v2: "get_recently_played_tracks (Inr response_with_malformed_item) =
     Inl (KeyError ''missing expected key in API response: artists'')"
    by (simp add: extract_defs)
  from a b r1 r2 v1 v2 show ?thesis by simp
qed

section \<open>Extraction of a response without items\<close>

text \<open>
  Claim C6, on the code. For a response body that is an object with no key
  \<open>items\<close>, \<open>get_recently_played_tracks\<close> raises (a \<open>ValueError\<close>, wrapped in a
  \<open>RuntimeError\<close> by its last handler), and \<open>return_dataframe\<close> returns an empty
  frame with no error and no warning.
\<close>

theorem missing_items_key:
  assumes "map_of kvs ''items'' = None"
  shows "return_dataframe (Inr (JObj kvs)) = ([], Inr []) \<and>
         get_recently_played_tracks (Inr (JObj kvs)) =
           Inl (RuntimeError (ValueError ''API response has no key items''))"
  using assms
  by (simp add: return_dataframe_def get_recently_played_tracks_def tracks_body_def
      DataFrame_def no_columns_def)

theorem missing_items_key_witness:
  "map_of [(''error'', JStr ''unexpected'')] ''items'' = None \<and>
   return_dataframe (Inr response_without_items) = ([], Inr []) \<and>
   get_recently_played_tracks (Inr response_without_items) =
     Inl (RuntimeError (ValueError ''API response has no key items''))"
proof -
  have a: "map_of [(''error'', JStr ''unexpected'')] ''items'' = None" by simp
  from missing_items_key [OF a] a show ?thesis
    by (simp add: response_without_items_def)
qed

end
